theory Spec2Isabelle
  imports Complex_Main "HOL-Library.Sublist"
begin

section \<open>The durable intent queue: \<open>execution_live/intent_sink.py\<close>\<close>

subsection \<open>A file system\<close>

text \<open>
  A path is the list of its components. The file system is the set of directories and
  the map from the paths of regular files to their contents. Only what
  \<open>FileIntentSink\<close> calls is modelled: \<open>Path.mkdir(parents=True, exist_ok=True)\<close>,
  \<open>Path.write_text\<close> and \<open>Path.rename\<close>, with the POSIX behaviour of each, and the
  errors each raises as values.
\<close>

type_synonym path = "string list"

record filesystem =
  dirs :: "path set"
  files :: "path \<rightharpoonup> string"

datatype os_error =
  FileNotFoundError | FileExistsError | IsADirectoryError | NotADirectoryError

text \<open>
  \<open>mkdir(parents=True, exist_ok=True)\<close>: every missing ancestor is created; an existing
  directory is accepted; a regular file standing at the path or at an ancestor is an error.
\<close>

definition mkdir_p :: "path \<Rightarrow> filesystem \<Rightarrow> os_error + filesystem" where
  "mkdir_p p fs =
     (if files fs p \<noteq> None then Inl FileExistsError
      else if list_ex (\<lambda>q. files fs q \<noteq> None) (prefixes p) then Inl NotADirectoryError
      else Inr (fs\<lparr>dirs := dirs fs \<union> set (prefixes p)\<rparr>))"

text \<open>
  \<open>write_text\<close> opens the file for writing (creating or truncating it), writes the data
  and closes it. Opening fails when the parent is not a directory or the path is one.
\<close>

definition open_w :: "path \<Rightarrow> filesystem \<Rightarrow> os_error + filesystem" where
  "open_w p fs =
     (if p \<in> dirs fs then Inl IsADirectoryError
      else if butlast p \<notin> dirs fs then Inl FileNotFoundError
      else Inr (fs\<lparr>files := (files fs)(p \<mapsto> [])\<rparr>))"

definition write_text :: "path \<Rightarrow> string \<Rightarrow> filesystem \<Rightarrow> os_error + filesystem" where
  "write_text p data fs =
     (case open_w p fs of
        Inl e \<Rightarrow> Inl e
      | Inr fs1 \<Rightarrow> Inr (fs1\<lparr>files := (files fs1)(p \<mapsto> data)\<rparr>))"

text \<open>
  The states of the file system a concurrent observer can see while \<open>write_text\<close> runs
  on an opened file: the file holds a prefix of the data, from the empty one to all of it.
\<close>

definition write_text_trace :: "path \<Rightarrow> string \<Rightarrow> filesystem \<Rightarrow> filesystem list" where
  "write_text_trace p data fs =
     map (\<lambda>k. fs\<lparr>files := (files fs)(p \<mapsto> take k data)\<rparr>) [0..<Suc (length data)]"

text \<open>
  \<open>rename\<close> (POSIX \<open>rename(2)\<close>): one atomic step; a regular file at the target is
  replaced; a missing source or a directory at the target is an error.
\<close>

definition rename :: "path \<Rightarrow> path \<Rightarrow> filesystem \<Rightarrow> os_error + filesystem" where
  "rename src dst fs =
     (case files fs src of
        None \<Rightarrow> Inl FileNotFoundError
      | Some data \<Rightarrow>
          if dst \<in> dirs fs then Inl IsADirectoryError
          else if butlast dst \<notin> dirs fs then Inl FileNotFoundError
          else Inr (fs\<lparr>files := ((files fs)(src := None))(dst \<mapsto> data)\<rparr>))"

subsection \<open>\<open>FileIntentSink\<close>\<close>

record FileIntentSink =
  root :: path
  pending :: path
  done_dir :: path
  failed :: path

fun mkdir_all :: "path list \<Rightarrow> filesystem \<Rightarrow> os_error + filesystem" where
  "mkdir_all [] fs = Inr fs"
| "mkdir_all (p # ps) fs =
     (case mkdir_p p fs of Inl e \<Rightarrow> Inl e | Inr fs1 \<Rightarrow> mkdir_all ps fs1)"

definition FileIntentSink_init ::
  "path \<Rightarrow> filesystem \<Rightarrow> os_error + (FileIntentSink \<times> filesystem)" where
  "FileIntentSink_init root_dir fs =
     (let self = \<lparr>root = root_dir, pending = root_dir @ [''pending''],
                  done_dir = root_dir @ [''done''], failed = root_dir @ [''failed'']\<rparr>
      in case mkdir_all [pending self, done_dir self, failed self] fs of
           Inl e \<Rightarrow> Inl e
         | Inr fs1 \<Rightarrow> Inr (self, fs1))"

text \<open>
  \<open>emit\<close>. The token is what \<open>str(uuid.uuid4())\<close> returned, a parameter of the model
  (36 characters, hexadecimal digits and hyphens: one path component).
\<close>

definition fname_of :: "string \<Rightarrow> string" where
  "fname_of uuid4 = uuid4 @ ''.json''"

definition tmp_of :: "FileIntentSink \<Rightarrow> string \<Rightarrow> path" where
  "tmp_of self uuid4 = pending self @ [fname_of uuid4 @ ''.tmp'']"

definition final_of :: "FileIntentSink \<Rightarrow> string \<Rightarrow> path" where
  "final_of self uuid4 = pending self @ [fname_of uuid4]"

definition emit :: "FileIntentSink \<Rightarrow> string \<Rightarrow> string \<Rightarrow> filesystem \<Rightarrow> os_error + filesystem" where
  "emit self uuid4 intent_json fs =
     (let tmp = tmp_of self uuid4; final = final_of self uuid4
      in case write_text tmp intent_json fs of
           Inl e \<Rightarrow> Inl e
         | Inr fs1 \<Rightarrow> rename tmp final fs1)"

text \<open>
  Every state of the file system that exists from the call of \<open>emit\<close> until just before
  its rename: the state at the call and, once the temporary file is open, the states of
  the write. An \<open>emit\<close> interrupted before the rename leaves one of these behind.
\<close>

definition emit_trace :: "FileIntentSink \<Rightarrow> string \<Rightarrow> string \<Rightarrow> filesystem \<Rightarrow> filesystem list" where
  "emit_trace self uuid4 intent_json fs =
     (case open_w (tmp_of self uuid4) fs of
        Inl e \<Rightarrow> [fs]
      | Inr fs1 \<Rightarrow> fs # write_text_trace (tmp_of self uuid4) intent_json fs)"

text \<open>
  What a consumer of an area sees: the names of the files directly in it, with their
  contents. The entries of the queue are those whose name carries the payload suffix.
\<close>

definition listing :: "filesystem \<Rightarrow> path \<Rightarrow> (string \<rightharpoonup> string)" where
  "listing fs d = (\<lambda>name. files fs (d @ [name]))"

definition entries :: "filesystem \<Rightarrow> path \<Rightarrow> (string \<rightharpoonup> string)" where
  "entries fs d = (\<lambda>name. if suffix ''.json'' name then files fs (d @ [name]) else None)"


section \<open>Python values the strategies and the serializer share\<close>

text \<open>The exceptions the modelled code can raise, as values.\<close>

datatype py_error =
  ZeroDivisionError | IndexError | AttributeError | TypeError | ValidationError
  | RaisedError string

text \<open>
  Indexing and slicing of a list or an array as Python does them: a negative index counts
  from the end, an index out of range raises, a slice bound out of range is clipped.
\<close>

definition py_index :: "'a list \<Rightarrow> int \<Rightarrow> py_error + 'a" where
  "py_index xs i =
     (if 0 \<le> i \<and> i < int (length xs) then Inr (xs ! nat i)
      else if i < 0 \<and> - int (length xs) \<le> i then Inr (xs ! nat (int (length xs) + i))
      else Inl IndexError)"

definition slice_to :: "'a list \<Rightarrow> int \<Rightarrow> 'a list" where
  "slice_to xs k = (if k < 0 then take (nat (int (length xs) + k)) xs else take (nat k) xs)"

definition slice_from :: "'a list \<Rightarrow> int \<Rightarrow> 'a list" where
  "slice_from xs j = (if j < 0 then drop (nat (int (length xs) + j)) xs else drop (nat j) xs)"

subsection \<open>\<open>datetime\<close> and \<open>datetime.isoformat\<close>\<close>

text \<open>
  A \<open>datetime\<close>: the wall-clock fields and what \<open>utcoffset()\<close> returns, in microseconds
  (\<open>None\<close> for a naive value, one with no \<open>tzinfo\<close>).
\<close>

record datetime =
  year :: nat
  month :: nat
  day :: nat
  hour :: nat
  minute :: nat
  second :: nat
  microsecond :: nat
  utcoffset :: "int option"




text \<open>\<open>%d\<close> and \<open>%0wd\<close> of a natural number.\<close>

definition digit_char :: "nat \<Rightarrow> char" where
  "digit_char n = ''0123456789'' ! n"

fun dec :: "nat \<Rightarrow> string" where
  "dec n = (if n < 10 then [digit_char n] else dec (n div 10) @ [digit_char (n mod 10)])"

declare dec.simps [simp del]

definition zpad :: "nat \<Rightarrow> nat \<Rightarrow> string" where
  "zpad w n = replicate (w - length (dec n)) (CHR ''0'') @ dec n"

text \<open>
  \<open>isoformat()\<close> with its default arguments: the date, \<open>T\<close>, the time with the microseconds
  only when they are not zero, and the offset only when there is one. The seconds of an
  offset, and their fraction, are written only when they are not zero.
\<close>

definition format_time :: "nat \<Rightarrow> nat \<Rightarrow> nat \<Rightarrow> nat \<Rightarrow> string" where
  "format_time hh mm ss us =
     zpad 2 hh @ '':'' @ zpad 2 mm @ '':'' @ zpad 2 ss @
     (if us \<noteq> 0 then ''.'' @ zpad 6 us else [])"

definition seconds_part :: "nat \<Rightarrow> string" where
  "seconds_part ss =
     (if ss \<noteq> 0
      then '':'' @ zpad 2 (ss div 1000000) @
           (if ss mod 1000000 \<noteq> 0 then ''.'' @ zpad 6 (ss mod 1000000) else [])
      else [])"

definition format_offset :: "int option \<Rightarrow> string" where
  "format_offset off =
     (case off of
        None \<Rightarrow> []
      | Some t \<Rightarrow>
          (let sign = (if t < 0 then CHR ''-'' else CHR ''+'');
               a = nat \<bar>t\<bar>;
               hh = a div 3600000000;
               r = a mod 3600000000;
               mm = r div 60000000;
               ss = r mod 60000000
           in sign # zpad 2 hh @ '':'' @ zpad 2 mm @ seconds_part ss))"

definition isoformat :: "datetime \<Rightarrow> string" where
  "isoformat d =
     zpad 4 (year d) @ ''-'' @ zpad 2 (month d) @ ''-'' @ zpad 2 (day d) @ ''T'' @
     format_time (hour d) (minute d) (second d) (microsecond d) @
     format_offset (utcoffset d)"




section \<open>The execution intent: \<open>execution_live/intent_schema.py\<close>, \<open>intent_serializer.py\<close>\<close>

text \<open>
  The frozen dataclass. \<open>side\<close>, \<open>order_type\<close> and \<open>mode\<close> are strings (the \<open>Literal\<close>
  annotations are not checked at run time); the floats are of a type \<open>'f\<close>, a parameter.
\<close>

record 'f ExecutionIntent =
  intent_id :: string
  timestamp :: datetime
  symbol :: string
  side :: string
  order_type :: string
  quantity :: 'f
  stop_loss :: "'f option"
  take_profit :: "'f option"
  time_in_force :: string
  policy_hash :: string
  mode :: string






subsection \<open>\<open>json.dumps(data, separators=(",", ":"))\<close>\<close>








subsection \<open>\<open>serialize_intent\<close>\<close>



section \<open>Strategies: \<open>hypotheses/base.py\<close>\<close>

datatype IntentType = BUY | SELL | CLOSE | HOLD

record TradeIntent =
  type :: IntentType
  size' :: real

text \<open>
  The constructor of the pydantic model: \<open>size\<close> defaults to \<open>1.0\<close> and is validated
  against \<open>gt=0.0\<close>.
\<close>

definition TradeIntent_init :: "IntentType \<Rightarrow> real option \<Rightarrow> py_error + TradeIntent" where
  "TradeIntent_init t sz =
     (let s = (case sz of None \<Rightarrow> 1 | Some x \<Rightarrow> x)
      in if 0 < s then Inr \<lparr>type = t, size' = s\<rparr> else Inl ValidationError)"

definition is_hold :: "TradeIntent \<Rightarrow> bool" where
  "is_hold self = (type self = HOLD)"

text \<open>
  Assignment to a field of a pydantic model: refused when the model's configuration is
  frozen, stored (with no validation) otherwise.
\<close>

record model_config =
  frozen :: bool

definition TradeIntent_model_config :: model_config where
  "TradeIntent_model_config = \<lparr>frozen = True\<rparr>"

datatype attr_value = TypeValue IntentType | SizeValue real

definition TradeIntent_setattr :: "TradeIntent \<Rightarrow> attr_value \<Rightarrow> py_error + TradeIntent" where
  "TradeIntent_setattr self v =
     (if frozen TradeIntent_model_config then Inl ValidationError
      else case v of
             TypeValue t \<Rightarrow> Inr (self\<lparr>type := t\<rparr>)
           | SizeValue s \<Rightarrow> Inr (self\<lparr>size' := s\<rparr>))"

subsection \<open>Collaborators: bars, the market state, logging\<close>

text \<open>
  The prices of a bar are floating-point numbers; their type is a parameter \<open>'f\<close> of the
  model. \<open>MarketState\<close> is given by what its three methods return.
\<close>

record 'f Bar =
  timestamp :: datetime
  symbol :: string
  "open" :: 'f
  high :: 'f
  low :: 'f
  close :: 'f

record 'f MarketState =
  bar_count :: int
  recent_bars :: "int \<Rightarrow> 'f Bar list option"
  current_bar :: "py_error + 'f Bar"

text \<open>
  A call of \<open>logger.info\<close>: the logger, the message and its arguments. The installed
  handlers either handle the record or raise; \<open>info_calls\<close> are the records handled so far.
\<close>

record log_call =
  logger_name :: string
  msg :: string
  arg_name :: string
  arg_ts :: string
  arg_direction :: string
  arg_confidence :: real
  arg_size :: real

record logging_state =
  handler_error :: "log_call \<Rightarrow> py_error option"
  info_calls :: "log_call list"

definition logger_info :: "logging_state \<Rightarrow> log_call \<Rightarrow> (py_error + unit) \<times> logging_state" where
  "logger_info lg c =
     (case handler_error lg c of
        Some e \<Rightarrow> (Inl e, lg)
      | None \<Rightarrow> (Inr (), lg\<lparr>info_calls := info_calls lg @ [c]\<rparr>))"

subsection \<open>\<open>Hypothesis\<close>\<close>

text \<open>
  What the diagnostic hook reads of an instance: the name of its class, what evaluating
  its property \<open>hypothesis_id\<close> gives (a string, or the exception the property raises),
  and the optional attributes \<open>explain_decisions\<close> (absent counts as false), \<open>name\<close> and
  \<open>_diagnostic_logger\<close> (the logger, known by its name). A subclass extends the record.
\<close>

record Hypothesis =
  class_name :: string
  hypothesis_id :: "py_error + string"
  explain_decisions :: bool
  name :: "string option"
  diagnostic_logger :: "string option"

text \<open>
  An \<open>on_bar\<close> method: from the instance, the three arguments and the logging state to
  the decision returned (\<open>None\<close> is Python's \<open>None\<close>) or the exception raised, with the
  instance and the logging state it leaves.
\<close>

type_synonym ('a, 'f, 'p, 'c) on_bar_method =
  "'a Hypothesis_scheme \<Rightarrow> 'f MarketState \<Rightarrow> 'p \<Rightarrow> 'c \<Rightarrow> logging_state \<Rightarrow>
   (py_error + TradeIntent option) \<times> 'a Hypothesis_scheme \<times> logging_state"

text \<open>
  \<open>getattr(self, "hypothesis_id", self.__class__.__name__)\<close>: the default stands in for
  an \<open>AttributeError\<close> only; any other exception of the property propagates.
\<close>

definition getattr_hypothesis_id :: "'a Hypothesis_scheme \<Rightarrow> py_error + string" where
  "getattr_hypothesis_id self =
     (case hypothesis_id self of
        Inl e \<Rightarrow> if e = AttributeError then Inr (class_name self) else Inl e
      | Inr v \<Rightarrow> Inr v)"

text \<open>The logger of the instance, created and stored on the instance at its first use.\<close>

definition get_diagnostic_logger :: "'a Hypothesis_scheme \<Rightarrow> string \<times> 'a Hypothesis_scheme" where
  "get_diagnostic_logger self =
     (case diagnostic_logger self of
        None \<Rightarrow> (''hypotheses.base.'' @ class_name self,
                 self\<lparr>diagnostic_logger := Some (''hypotheses.base.'' @ class_name self)\<rparr>)
      | Some l \<Rightarrow> (l, self))"

definition direction_of :: "TradeIntent \<Rightarrow> string" where
  "direction_of intent =
     (if type intent = BUY then ''LONG''
      else if type intent = SELL then ''SHORT''
      else if type intent = CLOSE then ''CLOSE''
      else ''FLAT'')"

text \<open>
  \<open>_log_signal_intent\<close> from the line after its \<open>try\<close> statement: the part of the hook
  that runs once the current bar is there. A \<open>TradeIntent\<close> has no attribute
  \<open>confidence\<close>, so the confidence logged is its size.
\<close>

definition log_signal ::
  "'a Hypothesis_scheme \<Rightarrow> TradeIntent \<Rightarrow> 'f Bar \<Rightarrow> logging_state \<Rightarrow>
   (py_error + unit) \<times> 'a Hypothesis_scheme \<times> logging_state" where
  "log_signal self intent bar lg =
     (let direction = direction_of intent;
          confidence = size' intent;
          logger = fst (get_diagnostic_logger self);
          self1 = snd (get_diagnostic_logger self)
      in case getattr_hypothesis_id self1 of
           Inl e \<Rightarrow> (Inl e, self1, lg)
         | Inr dflt \<Rightarrow>
             (let name = (case name self1 of None \<Rightarrow> dflt | Some n \<Rightarrow> n);
                  ts_str = isoformat (timestamp bar);
                  r = logger_info lg
                        \<lparr>logger_name = logger,
                         msg = ''hypothesis_signal | name=%s | ts=%s | direction=%s | confidence=%.4f | size=%.4f'',
                         arg_name = name, arg_ts = ts_str, arg_direction = direction,
                         arg_confidence = confidence, arg_size = size' intent\<rparr>
              in (fst r, self1, snd r)))"

text \<open>
  \<open>_log_signal_intent\<close>: nothing is done when \<open>explain_decisions\<close> is not set, when the
  decision is \<open>None\<close> or a hold, or when \<open>market_state.current_bar()\<close> raises.
\<close>

definition log_signal_intent ::
  "'a Hypothesis_scheme \<Rightarrow> TradeIntent option \<Rightarrow> 'f MarketState \<Rightarrow> logging_state \<Rightarrow>
   (py_error + unit) \<times> 'a Hypothesis_scheme \<times> logging_state" where
  "log_signal_intent self intent market_state lg =
     (if \<not> explain_decisions self then (Inr (), self, lg)
      else case intent of
        None \<Rightarrow> (Inr (), self, lg)
      | Some i \<Rightarrow>
          if is_hold i then (Inr (), self, lg)
          else case current_bar market_state of
            Inl e \<Rightarrow> (Inr (), self, lg)
          | Inr bar \<Rightarrow> log_signal self i bar lg)"

text \<open>
  \<open>__init_subclass__\<close> replaces the \<open>on_bar\<close> of a subclass by \<open>wrapped\<close>, once: a method
  already marked \<open>_diagnostic_wrapped\<close> is left as it is.
\<close>

definition wrapped :: "('a, 'f, 'p, 'c) on_bar_method \<Rightarrow> ('a, 'f, 'p, 'c) on_bar_method" where
  "wrapped original_on_bar self market_state position_state clock lg =
     (case original_on_bar self market_state position_state clock lg of
        (Inl e, self1, lg1) \<Rightarrow> (Inl e, self1, lg1)
      | (Inr intent, self1, lg1) \<Rightarrow>
          (case log_signal_intent self1 intent market_state lg1 of
             (Inl e, self2, lg2) \<Rightarrow> (Inl e, self2, lg2)
           | (Inr u, self2, lg2) \<Rightarrow> (Inr intent, self2, lg2)))"

record ('a, 'f, 'p, 'c) hypothesis_class =
  on_bar_attr :: "('a, 'f, 'p, 'c) on_bar_method"
  diagnostic_wrapped :: bool

definition init_subclass ::
  "('a, 'f, 'p, 'c) hypothesis_class \<Rightarrow> ('a, 'f, 'p, 'c) hypothesis_class" where
  "init_subclass cls =
     (if diagnostic_wrapped cls then cls
      else cls\<lparr>on_bar_attr := wrapped (on_bar_attr cls), diagnostic_wrapped := True\<rparr>)"

section \<open>\<open>CompetitionHailMary\<close>: \<open>hypotheses/competition/competition_hail_mary.py\<close>\<close>

text \<open>
  The arithmetic of the indicators is numpy's on 64-bit floats. It is a parameter of the
  model: the operations of the type \<open>'f\<close> of prices. None of them raises (numpy warns on
  a division by zero or an empty mean and returns an infinity or a NaN). Whatever is
  proved holds for every such arithmetic.
\<close>

record 'f float_ops =
  float_of_int :: "int \<Rightarrow> 'f"
  int_truediv :: "int \<Rightarrow> int \<Rightarrow> 'f"
  fadd :: "'f \<Rightarrow> 'f \<Rightarrow> 'f"
  fsub :: "'f \<Rightarrow> 'f \<Rightarrow> 'f"
  fmul :: "'f \<Rightarrow> 'f \<Rightarrow> 'f"
  fdiv :: "'f \<Rightarrow> 'f \<Rightarrow> 'f"
  fneg :: "'f \<Rightarrow> 'f"
  fabs :: "'f \<Rightarrow> 'f"
  fmaximum :: "'f \<Rightarrow> 'f \<Rightarrow> 'f"
  fgt :: "'f \<Rightarrow> 'f \<Rightarrow> bool"
  flt :: "'f \<Rightarrow> 'f \<Rightarrow> bool"
  fge :: "'f \<Rightarrow> 'f \<Rightarrow> bool"
  fle :: "'f \<Rightarrow> 'f \<Rightarrow> bool"
  feq :: "'f \<Rightarrow> 'f \<Rightarrow> bool"
  fmean :: "'f list \<Rightarrow> 'f"

record 'f CompetitionHailMary = Hypothesis +
  lookback :: int
  atr_mult :: 'f
  min_body_ratio :: 'f
  fast_period :: int
  slow_period :: int
  roc_period :: int
  roc_threshold :: 'f
  rsi_period :: int
  rsi_oversold :: 'f
  rsi_overbought :: 'f

text \<open>
  \<open>__init__\<close> stores its ten arguments. The attributes the hook looks for are not set:
  \<open>explain_decisions\<close> counts as false, \<open>name\<close> and \<open>_diagnostic_logger\<close> are absent.
\<close>

definition CompetitionHailMary_init ::
  "int \<Rightarrow> 'f \<Rightarrow> 'f \<Rightarrow> int \<Rightarrow> int \<Rightarrow> int \<Rightarrow> 'f \<Rightarrow> int \<Rightarrow> 'f \<Rightarrow> 'f \<Rightarrow> 'f CompetitionHailMary" where
  "CompetitionHailMary_init lookback' atr_mult' min_body_ratio' fast_period' slow_period'
                            roc_period' roc_threshold' rsi_period' rsi_oversold' rsi_overbought' =
     \<lparr>class_name = ''CompetitionHailMary'',
      hypothesis_id = Inr ''competition_hail_mary'',
      explain_decisions = False, name = None, diagnostic_logger = None,
      lookback = lookback', atr_mult = atr_mult', min_body_ratio = min_body_ratio',
      fast_period = fast_period', slow_period = slow_period', roc_period = roc_period',
      roc_threshold = roc_threshold', rsi_period = rsi_period',
      rsi_oversold = rsi_oversold', rsi_overbought = rsi_overbought'\<rparr>"

text \<open>The default arguments of \<open>__init__\<close>.\<close>

definition CompetitionHailMary_default :: "'f float_ops \<Rightarrow> 'f CompetitionHailMary" where
  "CompetitionHailMary_default ops =
     CompetitionHailMary_init 14 (float_of_int ops 1) (int_truediv ops 35 100) 5 13 3
       (int_truediv ops 1 1000) 7 (float_of_int ops 20) (float_of_int ops 80)"

text \<open>\<open>_ema\<close>: \<open>2 / (period + 1)\<close> divides Python integers and raises on zero.\<close>

fun ema_loop :: "'f float_ops \<Rightarrow> 'f \<Rightarrow> 'f \<Rightarrow> 'f list \<Rightarrow> 'f list" where
  "ema_loop ops alpha prev [] = []"
| "ema_loop ops alpha prev (x # xs) =
     (let e = fadd ops (fmul ops alpha x)
                (fmul ops (fsub ops (float_of_int ops 1) alpha) prev)
      in e # ema_loop ops alpha e xs)"

definition ema :: "'f float_ops \<Rightarrow> 'f list \<Rightarrow> int \<Rightarrow> py_error + 'f list" where
  "ema ops data period =
     (if period + 1 = 0 then Inl ZeroDivisionError
      else (let alpha = int_truediv ops 2 (period + 1)
            in case data of
                 [] \<Rightarrow> Inl IndexError
               | x # xs \<Rightarrow> Inr (x # ema_loop ops alpha x xs)))"

text \<open>\<open>np.diff\<close> and \<open>np.roll(_, 1)\<close>.\<close>

definition np_diff :: "'f float_ops \<Rightarrow> 'f list \<Rightarrow> 'f list" where
  "np_diff ops xs = map (\<lambda>(a, b). fsub ops b a) (zip xs (tl xs))"

definition np_roll1 :: "'a list \<Rightarrow> 'a list" where
  "np_roll1 xs = (if xs = [] then [] else last xs # butlast xs)"

text \<open>
  \<open>_calculate_rsi\<close>. The loop runs over \<open>range(rsi_period, len(gains))\<close> and reads
  \<open>gains[i]\<close> and \<open>losses[i]\<close>, which raises for an index below \<open>-len(gains)\<close>.
\<close>

fun rsi_loop ::
  "'f float_ops \<Rightarrow> int \<Rightarrow> 'f list \<Rightarrow> 'f list \<Rightarrow> int list \<Rightarrow> 'f \<times> 'f \<Rightarrow> py_error + 'f \<times> 'f" where
  "rsi_loop ops p gains losses [] acc = Inr acc"
| "rsi_loop ops p gains losses (i # rest) acc =
     (case py_index gains i of
        Inl e \<Rightarrow> Inl e
      | Inr g \<Rightarrow>
          (case py_index losses i of
             Inl e \<Rightarrow> Inl e
           | Inr l \<Rightarrow>
               rsi_loop ops p gains losses rest
                 (fdiv ops (fadd ops (fmul ops (fst acc) (float_of_int ops (p - 1))) g)
                    (float_of_int ops p),
                  fdiv ops (fadd ops (fmul ops (snd acc) (float_of_int ops (p - 1))) l)
                    (float_of_int ops p))))"

definition calculate_rsi ::
  "'f float_ops \<Rightarrow> 'f CompetitionHailMary \<Rightarrow> 'f list \<Rightarrow> py_error + 'f" where
  "calculate_rsi ops self closes =
     (let deltas = np_diff ops closes;
          zero = float_of_int ops 0;
          gains = map (\<lambda>d. if fgt ops d zero then d else zero) deltas;
          losses = map (\<lambda>d. if flt ops d zero then fneg ops d else zero) deltas
      in if int (length gains) < rsi_period self then Inr (float_of_int ops 50)
         else case rsi_loop ops (rsi_period self) gains losses
                     [rsi_period self..int (length gains) - 1]
                     (fmean ops (slice_to gains (rsi_period self)),
                      fmean ops (slice_to losses (rsi_period self))) of
                Inl e \<Rightarrow> Inl e
              | Inr (avg_gain, avg_loss) \<Rightarrow>
                  if feq ops avg_loss zero then Inr (float_of_int ops 100)
                  else (let rs = fdiv ops avg_gain avg_loss
                        in Inr (fsub ops (float_of_int ops 100)
                                  (fdiv ops (float_of_int ops 100)
                                     (fadd ops (float_of_int ops 1) rs)))))"

text \<open>The values \<open>on_bar\<close> prints on its \<open>[HYP_DEBUG]\<close> line.\<close>

record 'f hyp_debug =
  dbg_symbol :: string
  dbg_signal :: IntentType
  dbg_rsi :: 'f
  dbg_exp :: bool
  dbg_cross_up :: bool
  dbg_cross_dn :: bool
  dbg_atr :: 'f
  dbg_price :: 'f
  dbg_fast_ema :: 'f
  dbg_slow_ema :: 'f

text \<open>
  \<open>on_bar\<close> as the class defines it: the decision and the line printed (none on the two
  early returns), or the exception raised. It reads the configuration and the market
  state and assigns to no attribute.
\<close>

definition on_bar ::
  "'f float_ops \<Rightarrow> 'f CompetitionHailMary \<Rightarrow> 'f MarketState \<Rightarrow> 'p \<Rightarrow> 'c \<Rightarrow>
   py_error + TradeIntent \<times> 'f hyp_debug option" where
  "on_bar ops self market_state position_state clock =
     (let required_bars = max (lookback self) (slow_period self) + 10
      in if bar_count market_state < required_bars
         then map_sum id (\<lambda>t. (t, None)) (TradeIntent_init HOLD None)
         else case recent_bars market_state required_bars of
           None \<Rightarrow> map_sum id (\<lambda>t. (t, None)) (TradeIntent_init HOLD None)
         | Some bars \<Rightarrow>
             if int (length bars) < required_bars
             then map_sum id (\<lambda>t. (t, None)) (TradeIntent_init HOLD None)
             else
          (let closes = map close bars; highs = map high bars;
               lows = map low bars; opens = map open bars
           in case ema ops closes (fast_period self) of Inl e \<Rightarrow> Inl e | Inr fast_ema \<Rightarrow>
              case ema ops closes (slow_period self) of Inl e \<Rightarrow> Inl e | Inr slow_ema \<Rightarrow>
              case py_index fast_ema (- 2) of Inl e \<Rightarrow> Inl e | Inr f2 \<Rightarrow>
              case py_index slow_ema (- 2) of Inl e \<Rightarrow> Inl e | Inr s2 \<Rightarrow>
              case py_index fast_ema (- 1) of Inl e \<Rightarrow> Inl e | Inr f1 \<Rightarrow>
              case py_index slow_ema (- 1) of Inl e \<Rightarrow> Inl e | Inr s1 \<Rightarrow>
          (let cross_up = (fle ops f2 s2 \<and> fgt ops f1 s1);
               cross_down = (fge ops f2 s2 \<and> flt ops f1 s1);
               tr1 = map2 (fsub ops) highs lows;
               tr2 = map (fabs ops) (map2 (fsub ops) highs (np_roll1 closes));
               tr3 = map (fabs ops) (map2 (fsub ops) lows (np_roll1 closes));
               tr = map2 (fmaximum ops) tr1 (map2 (fmaximum ops) tr2 tr3);
               atr = fmean ops (slice_from tr (- lookback self))
           in case py_index highs (- 1) of Inl e \<Rightarrow> Inl e | Inr h1 \<Rightarrow>
              case py_index lows (- 1) of Inl e \<Rightarrow> Inl e | Inr l1 \<Rightarrow>
          (let current_range = fsub ops h1 l1;
               is_expansion = fgt ops current_range (fmul ops atr (atr_mult self))
           in case calculate_rsi ops self closes of Inl e \<Rightarrow> Inl e | Inr rsi \<Rightarrow>
              case py_index closes (- 1) of Inl e \<Rightarrow> Inl e | Inr c1 \<Rightarrow>
              case py_index opens (- 1) of Inl e \<Rightarrow> Inl e | Inr o1 \<Rightarrow>
          (let signal0 = (if fgt ops f1 s1 then BUY else SELL);
               signal = (if flt ops rsi (rsi_oversold self) \<and> fgt ops c1 o1 then BUY
                         else if fgt ops rsi (rsi_overbought self) \<and> flt ops c1 o1 then SELL
                         else signal0)
           in case py_index bars (- 1) of Inl e \<Rightarrow> Inl e | Inr b1 \<Rightarrow>
              map_sum id
                (\<lambda>t. (t, Some \<lparr>dbg_symbol = symbol b1, dbg_signal = signal, dbg_rsi = rsi,
                               dbg_exp = is_expansion, dbg_cross_up = cross_up,
                               dbg_cross_dn = cross_down, dbg_atr = atr, dbg_price = c1,
                               dbg_fast_ema = f1, dbg_slow_ema = s1\<rparr>))
                (TradeIntent_init signal (Some 1)))))))"

text \<open>
  The method as \<open>Hypothesis.__init_subclass__\<close> leaves it on the class: the original
  \<open>on_bar\<close>, which leaves the instance and the logging state as they are, wrapped.
\<close>

definition on_bar_original :: "'f float_ops \<Rightarrow> (('f, unit) CompetitionHailMary_ext, 'f, 'p, 'c) on_bar_method" where
  "on_bar_original ops self market_state position_state clock lg =
     (map_sum id (\<lambda>r. Some (fst r)) (on_bar ops self market_state position_state clock),
      self, lg)"

definition CompetitionHailMary_class ::
  "'f float_ops \<Rightarrow> (('f, unit) CompetitionHailMary_ext, 'f, 'p, 'c) hypothesis_class" where
  "CompetitionHailMary_class ops =
     init_subclass \<lparr>on_bar_attr = on_bar_original ops, diagnostic_wrapped = False\<rparr>"

text \<open>Exact arithmetic on the reals, an arithmetic to run the examples with.\<close>

definition real_ops :: "real float_ops" where
  "real_ops =
     \<lparr>float_of_int = real_of_int, int_truediv = (\<lambda>a b. real_of_int a / real_of_int b),
      fadd = (+), fsub = (-), fmul = (*), fdiv = (/), fneg = uminus, fabs = abs,
      fmaximum = max, fgt = (\<lambda>a b. b < a), flt = (<), fge = (\<lambda>a b. b \<le> a), fle = (\<le>),
      feq = (=), fmean = (\<lambda>xs. sum_list xs / real (length xs))\<rparr>"

section \<open>Values used in the examples\<close>

text \<open>A queue root, before and after \<open>FileIntentSink\<close> is constructed on it, and two tokens.\<close>

abbreviation (input) ex_fs0 :: filesystem where
  "ex_fs0 \<equiv> \<lparr>dirs = {[]}, files = Map.empty\<rparr>"

abbreviation (input) ex_sink :: FileIntentSink where
  "ex_sink \<equiv> \<lparr>root = [''queue''], pending = [''queue'', ''pending''],
               done_dir = [''queue'', ''done''], failed = [''queue'', ''failed'']\<rparr>"

abbreviation (input) ex_fs :: filesystem where
  "ex_fs \<equiv> \<lparr>dirs = {[], [''queue''], [''queue'', ''pending''], [''queue'', ''done''],
                      [''queue'', ''failed'']}, files = Map.empty\<rparr>"

abbreviation (input) ex_uuid :: string where
  "ex_uuid \<equiv> ''123e4567-e89b-42d3-a456-426614174000''"


abbreviation (input) ex_time :: datetime where
  "ex_time \<equiv> \<lparr>year = 2024, month = 1, day = 15, hour = 12, minute = 30, second = 0,
               microsecond = 0, utcoffset = Some 0\<rparr>"

abbreviation (input) ex_bar :: "real Bar" where
  "ex_bar \<equiv> \<lparr>timestamp = ex_time, symbol = ''EURUSD'', open = 1, high = 1, low = 1, close = 1\<rparr>"

text \<open>A market state with \<open>n\<close> bars, all the same.\<close>

abbreviation (input) ex_market :: "nat \<Rightarrow> real MarketState" where
  "ex_market n \<equiv>
     \<lparr>bar_count = int n,
      recent_bars = (\<lambda>k. Some (replicate (min (nat k) n) ex_bar)),
      current_bar = Inr ex_bar\<rparr>"

text \<open>
  An \<open>on_bar\<close> that always decides to buy, an instance with the diagnostic hook switched
  on, and a logging state whose handlers accept every record.
\<close>

definition ex_on_bar :: "(unit, real, unit, unit) on_bar_method" where
  "ex_on_bar self ms ps clk lg = (Inr (Some \<lparr>type = BUY, size' = 1\<rparr>), self, lg)"

abbreviation (input) ex_hypothesis :: Hypothesis where
  "ex_hypothesis \<equiv> \<lparr>class_name = ''Demo'', hypothesis_id = Inr ''demo'',
                     explain_decisions = True, name = None, diagnostic_logger = None\<rparr>"

abbreviation (input) ex_logging :: logging_state where
  "ex_logging \<equiv> \<lparr>handler_error = (\<lambda>c. None), info_calls = []\<rparr>"

abbreviation (input) ex_log_call :: "string \<Rightarrow> string \<Rightarrow> string \<Rightarrow> log_call" where
  "ex_log_call cls nm dir \<equiv>
     \<lparr>logger_name = ''hypotheses.base.'' @ cls,
      msg = ''hypothesis_signal | name=%s | ts=%s | direction=%s | confidence=%.4f | size=%.4f'',
      arg_name = nm, arg_ts = ''2024-01-15T12:30:00+00:00'', arg_direction = dir,
      arg_confidence = 1, arg_size = 1\<rparr>"


section \<open>Properties of the durable intent queue\<close>

lemma FileIntentSink_init_example: "FileIntentSink_init [''queue''] ex_fs0 = Inr (ex_sink, ex_fs)"
  by (auto simp: FileIntentSink_init_def mkdir_p_def Let_def)

lemma not_suffix_tmp: "\<not> suffix ''.json'' (x @ ''.json.tmp'')"
proof
  assume "suffix ''.json'' (x @ ''.json.tmp'')"
  then obtain zs where "x @ ''.json.tmp'' = zs @ ''.json''" by (auto simp: suffix_def)
  then have "rev (x @ ''.json.tmp'') = rev (zs @ ''.json'')" by simp
  then show False by simp
qed

lemma tmp_name_not_entry: "\<not> suffix ''.json'' (fname_of u @ ''.tmp'')"
  using not_suffix_tmp [of u] by (simp add: fname_of_def)

lemma fname_is_entry: "suffix ''.json'' (fname_of u)"
  by (simp add: fname_of_def suffix_def)


lemma tmp_ne_final: "tmp_of self u \<noteq> final_of self v"
  using tmp_name_not_entry [of u] fname_is_entry [of v]
  by (auto simp: tmp_of_def final_of_def)

lemma write_text_trace_files:
  "st \<in> set (write_text_trace p data fs) \<Longrightarrow> q \<noteq> p \<Longrightarrow> files st q = files fs q"
  by (auto simp: write_text_trace_def)

lemma write_text_trace_dirs:
  "st \<in> set (write_text_trace p data fs) \<Longrightarrow> dirs st = dirs fs"
  by (auto simp: write_text_trace_def)

lemma emit_trace_files:
  "st \<in> set (emit_trace self u s fs) \<Longrightarrow> q \<noteq> tmp_of self u \<Longrightarrow> files st q = files fs q"
  by (auto simp: emit_trace_def split: sum.splits dest: write_text_trace_files)

lemma emit_trace_dirs:
  "st \<in> set (emit_trace self u s fs) \<Longrightarrow> dirs st = dirs fs"
  by (auto simp: emit_trace_def split: sum.splits dest: write_text_trace_dirs)

lemma emit_trace_entries:
  assumes "st \<in> set (emit_trace self u s fs)"
  shows "entries st (pending self) = entries fs (pending self)"
proof
  fix name
  show "entries st (pending self) name = entries fs (pending self) name"
  proof (cases "suffix ''.json'' name")
    case True
    then have "name \<noteq> fname_of u @ ''.tmp''" using tmp_name_not_entry by auto
    then have "pending self @ [name] \<noteq> tmp_of self u" by (simp add: tmp_of_def)
    with assms have "files st (pending self @ [name]) = files fs (pending self @ [name])"
      by (rule emit_trace_files)
    then show ?thesis by (simp add: entries_def)
  next
    case False
    then show ?thesis by (simp add: entries_def)
  qed
qed

text \<open>
  The trace ends in the state \<open>write_text\<close> returns, and the rename of \<open>emit\<close> acts on
  that state: the trace is the history of \<open>emit\<close> up to its rename.
\<close>

lemma emit_trace_last:
  assumes "emit self u s fs = Inr fs'"
  shows "write_text (tmp_of self u) s fs = Inr (last (emit_trace self u s fs)) \<and>
         rename (tmp_of self u) (final_of self u) (last (emit_trace self u s fs)) = Inr fs'"
  using assms
  by (auto simp: emit_def emit_trace_def write_text_def write_text_trace_def open_w_def Let_def
      split: sum.splits if_splits)

lemma emit_Inr:
  assumes "emit self u s fs = Inr fs'"
  shows "dirs fs' = dirs fs"
    and "files fs' = ((files fs)(tmp_of self u := None))(final_of self u \<mapsto> s)"
  using assms
  by (auto simp: emit_def write_text_def open_w_def rename_def Let_def
      split: sum.splits if_splits option.splits)

text \<open>\<open>emit\<close> returns whenever \<open>pending\<close> is a directory and no directory stands at its two paths.\<close>

lemma emit_succeeds:
  assumes "pending self \<in> dirs fs" "tmp_of self u \<notin> dirs fs" "final_of self u \<notin> dirs fs"
  shows "\<exists>fs'. emit self u s fs = Inr fs'"
  using assms
  by (auto simp: emit_def write_text_def open_w_def rename_def Let_def tmp_of_def final_of_def)

lemma emit_entries:
  assumes "emit self u s fs = Inr fs'"
  shows "entries fs' (pending self) = (entries fs (pending self))(fname_of u \<mapsto> s)"
proof
  fix name
  show "entries fs' (pending self) name = ((entries fs (pending self))(fname_of u \<mapsto> s)) name"
    using emit_Inr(2) [OF assms] tmp_name_not_entry [of u] fname_is_entry [of u]
    by (auto simp: entries_def tmp_of_def final_of_def)
qed


lemma write_text_trace_prefix:
  "st \<in> set (write_text_trace p data fs) \<Longrightarrow>
   \<exists>k. k \<le> length data \<and> files st p = Some (take k data)"
proof -
  assume "st \<in> set (write_text_trace p data fs)"
  then have "st \<in> (\<lambda>k. fs\<lparr>files := (files fs)(p \<mapsto> take k data)\<rparr>) ` {0..<Suc (length data)}"
    unfolding write_text_trace_def set_map set_upt .
  then obtain k where "k < Suc (length data)" "st = fs\<lparr>files := (files fs)(p \<mapsto> take k data)\<rparr>"
    by (elim imageE) (simp only: atLeastLessThan_iff, blast)
  then have "k \<le> length data \<and> files st p = Some (take k data)" by simp
  then show ?thesis by blast
qed

lemma emit_trace_prefix:
  "st \<in> set (tl (emit_trace self u s fs)) \<Longrightarrow>
   \<exists>k. k \<le> length s \<and> files st (tmp_of self u) = Some (take k s)"
  by (auto simp: emit_trace_def split: sum.splits dest: write_text_trace_prefix)

text \<open>
  C1, as stated, fails: the temporary file is written inside \<open>pending\<close>, and a consumer
  listing \<open>pending\<close> during the write, or after an \<open>emit\<close> interrupted before its rename,
  sees it, half-written or whole.
\<close>

theorem emit_tmp_visible_counterexample:
  "butlast (tmp_of ex_sink ex_uuid) = pending ex_sink \<and>
   listing ex_fs (pending ex_sink) (ex_uuid @ ''.json.tmp'') = None \<and>
   listing (emit_trace ex_sink ex_uuid ''{}'' ex_fs ! 2) (pending ex_sink)
     (ex_uuid @ ''.json.tmp'') = Some ''{'' \<and>
   listing (last (emit_trace ex_sink ex_uuid ''{}'' ex_fs)) (pending ex_sink)
     (ex_uuid @ ''.json.tmp'') = Some ''{}''"
  by (simp add: tmp_of_def fname_of_def listing_def emit_trace_def open_w_def write_text_trace_def)

text \<open>
  C1 (amended): the temporary file is written inside \<open>pending\<close> under a name that does not
  end in the payload suffix \<open>.json\<close>, so it is no entry of the queue. In every state of the
  file system from the call of \<open>emit\<close> until just before its rename, the entries of
  \<open>pending\<close> (names ending in \<open>.json\<close>, with their contents) are those at the call, the
  directories are unchanged, and no file but the temporary one differs: no entry, whole,
  truncated or half-written, appears before the rename. Once opened, the temporary file
  holds a prefix of the data in each of these states: an \<open>emit\<close> interrupted then leaves
  it in \<open>pending\<close>.
\<close>

theorem emit_before_rename:
  "butlast (tmp_of self u) = pending self \<and>
   \<not> suffix ''.json'' (last (tmp_of self u)) \<and>
   (\<forall>st \<in> set (emit_trace self u s fs).
      entries st (pending self) = entries fs (pending self) \<and>
      dirs st = dirs fs \<and>
      (\<forall>q. q \<noteq> tmp_of self u \<longrightarrow> files st q = files fs q)) \<and>
   (\<forall>st \<in> set (tl (emit_trace self u s fs)).
      \<exists>k. k \<le> length s \<and> files st (tmp_of self u) = Some (take k s))"
  using tmp_name_not_entry [of u]
  by (auto simp: tmp_of_def emit_trace_entries emit_trace_dirs emit_trace_files
      dest: emit_trace_prefix [unfolded tmp_of_def])

theorem emit_before_rename_witness:
  "emit_trace ex_sink ex_uuid ''{}'' ex_fs ! 2 \<in> set (emit_trace ex_sink ex_uuid ''{}'' ex_fs) \<and>
   entries (emit_trace ex_sink ex_uuid ''{}'' ex_fs ! 2) (pending ex_sink) =
     entries ex_fs (pending ex_sink) \<and>
   files (emit_trace ex_sink ex_uuid ''{}'' ex_fs ! 2) (final_of ex_sink ex_uuid) = None \<and>
   files (emit_trace ex_sink ex_uuid ''{}'' ex_fs ! 2) (tmp_of ex_sink ex_uuid) = Some ''{''"
proof -
  have m: "emit_trace ex_sink ex_uuid ''{}'' ex_fs ! 2 \<in> set (emit_trace ex_sink ex_uuid ''{}'' ex_fs)"
    by (simp add: emit_trace_def open_w_def tmp_of_def fname_of_def write_text_trace_def)
  have n: "final_of ex_sink ex_uuid \<noteq> tmp_of ex_sink ex_uuid"
    by (simp add: tmp_of_def final_of_def fname_of_def)
  have t: "files (emit_trace ex_sink ex_uuid ''{}'' ex_fs ! 2) (tmp_of ex_sink ex_uuid) = Some ''{''"
    by (simp add: emit_trace_def open_w_def tmp_of_def fname_of_def write_text_trace_def)
  from emit_before_rename [of ex_sink ex_uuid "''{}''" ex_fs] m n t show ?thesis
    by (simp add: final_of_def)
qed

text \<open>
  C2: if \<open>emit\<close> returns and the token is fresh (no file of \<open>pending\<close> has the entry's name,
  which is what a universally unique token means), then the entry is in \<open>pending\<close> with
  exactly the string passed as its content, it is the one entry that was not there at the
  call, every other entry is as it was, and the temporary file is gone.
\<close>

theorem emit_success_one_entry:
  assumes "emit self u s fs = Inr fs'"
    and "listing fs (pending self) (fname_of u) = None"
  shows "listing fs' (pending self) (fname_of u) = Some s \<and>
         entries fs' (pending self) = (entries fs (pending self))(fname_of u \<mapsto> s) \<and>
         dom (entries fs' (pending self)) - dom (entries fs (pending self)) = {fname_of u} \<and>
         listing fs' (pending self) (fname_of u @ ''.tmp'') = None \<and>
         (\<forall>name. name \<noteq> fname_of u \<and> name \<noteq> fname_of u @ ''.tmp'' \<longrightarrow>
            listing fs' (pending self) name = listing fs (pending self) name)"
proof -
  have e: "entries fs' (pending self) = (entries fs (pending self))(fname_of u \<mapsto> s)"
    using assms(1) by (rule emit_entries)
  have n: "entries fs (pending self) (fname_of u) = None"
    using assms(2) by (simp add: entries_def listing_def)
  have d: "dom (entries fs' (pending self)) - dom (entries fs (pending self)) = {fname_of u}"
    using n by (auto simp: e)
  have f: "files fs' = ((files fs)(tmp_of self u := None))(final_of self u \<mapsto> s)"
    using assms(1) by (rule emit_Inr(2))
  show ?thesis using e d tmp_ne_final [of self u u]
    by (auto simp: f listing_def tmp_of_def final_of_def)
qed

lemma emit_example:
  "emit ex_sink ex_uuid ''{}'' ex_fs =
     Inr (ex_fs\<lparr>files := [final_of ex_sink ex_uuid \<mapsto> ''{}'']\<rparr>)"
  by (simp add: emit_def write_text_def open_w_def rename_def tmp_of_def final_of_def
      fname_of_def Let_def)

theorem emit_success_one_entry_witness:
  "emit ex_sink ex_uuid ''{}'' ex_fs =
     Inr (ex_fs\<lparr>files := [final_of ex_sink ex_uuid \<mapsto> ''{}'']\<rparr>) \<and>
   listing ex_fs (pending ex_sink) (fname_of ex_uuid) = None \<and>
   listing (ex_fs\<lparr>files := [final_of ex_sink ex_uuid \<mapsto> ''{}'']\<rparr>) (pending ex_sink)
     (fname_of ex_uuid) = Some ''{}'' \<and>
   dom (entries (ex_fs\<lparr>files := [final_of ex_sink ex_uuid \<mapsto> ''{}'']\<rparr>) (pending ex_sink)) -
     dom (entries ex_fs (pending ex_sink)) = {fname_of ex_uuid}"
proof -
  have f: "listing ex_fs (pending ex_sink) (fname_of ex_uuid) = None"
    by (simp add: listing_def)
  from emit_success_one_entry [OF emit_example f] emit_example f show ?thesis by blast
qed




section \<open>Properties of the trade decision and of the diagnostic hook\<close>

text \<open>
  C7: a \<open>TradeIntent\<close> the constructor returns has a size above zero, whatever its kind,
  so in particular when its kind is not \<open>HOLD\<close>; and every assignment to one of its
  fields is refused, the model being frozen.
\<close>

theorem TradeIntent_frozen_positive:
  assumes "TradeIntent_init t sz = Inr ti"
  shows "0 < size' ti \<and> (type ti \<noteq> HOLD \<longrightarrow> 0 < size' ti) \<and> type ti = t \<and>
         (\<forall>v. TradeIntent_setattr ti v = Inl ValidationError)"
  using assms
  by (auto simp: TradeIntent_init_def TradeIntent_setattr_def TradeIntent_model_config_def Let_def
      split: option.splits if_splits)

text \<open>The constructor refuses exactly the sizes that are not above zero.\<close>

lemma TradeIntent_init_rejects:
  "TradeIntent_init t sz = Inl ValidationError \<longleftrightarrow> (\<exists>x. sz = Some x \<and> x \<le> 0)"
  by (auto simp: TradeIntent_init_def Let_def split: option.splits)

theorem TradeIntent_frozen_positive_witness:
  "TradeIntent_init BUY (Some (1/2)) = Inr \<lparr>type = BUY, size' = 1/2\<rparr> \<and>
   0 < size' \<lparr>type = BUY, size' = 1/2\<rparr> \<and>
   TradeIntent_setattr \<lparr>type = BUY, size' = 1/2\<rparr> (SizeValue (- 1)) = Inl ValidationError \<and>
   TradeIntent_setattr \<lparr>type = BUY, size' = 1/2\<rparr> (TypeValue HOLD) = Inl ValidationError"
proof -
  have i: "TradeIntent_init BUY (Some (1/2)) = Inr \<lparr>type = BUY, size' = 1/2\<rparr>"
    by (simp add: TradeIntent_init_def)
  from TradeIntent_frozen_positive [OF i] i show ?thesis by simp
qed


lemma get_diagnostic_logger_self:
  "snd (get_diagnostic_logger self) = self \<or>
   (\<exists>x. snd (get_diagnostic_logger self) = self\<lparr>diagnostic_logger := x\<rparr>)"
  by (auto simp: get_diagnostic_logger_def split: option.splits)




lemma log_signal_self:
  "fst (snd (log_signal self i bar lg)) = snd (get_diagnostic_logger self)"
  by (simp add: log_signal_def Let_def split: sum.splits)

lemma log_signal_intent_skip:
  "\<not> explain_decisions self \<or> intent = None \<or> (\<exists>i. intent = Some i \<and> is_hold i) \<or>
   (\<exists>e. current_bar ms = Inl e) \<Longrightarrow>
   log_signal_intent self intent ms lg = (Inr (), self, lg)"
  by (auto simp: log_signal_intent_def split: option.splits)

lemma log_signal_intent_run:
  "explain_decisions self \<Longrightarrow> \<not> is_hold i \<Longrightarrow> current_bar ms = Inr bar \<Longrightarrow>
   log_signal_intent self (Some i) ms lg = log_signal self i bar lg"
  by (simp add: log_signal_intent_def)


lemma log_signal_intent_self:
  "fst (snd (log_signal_intent self intent ms lg)) = self \<or>
   (\<exists>x. fst (snd (log_signal_intent self intent ms lg)) = self\<lparr>diagnostic_logger := x\<rparr>)"
proof (cases "\<not> explain_decisions self \<or> intent = None \<or> (\<exists>i. intent = Some i \<and> is_hold i) \<or>
   (\<exists>e. current_bar ms = Inl e)")
  case True
  then show ?thesis by (simp only: log_signal_intent_skip fst_conv snd_conv simp_thms)
next
  case False
  then obtain i bar where i: "intent = Some i" "\<not> is_hold i" and b: "current_bar ms = Inr bar"
    and x: "explain_decisions self"
    by (cases intent; cases "current_bar ms") auto
  show ?thesis
    using get_diagnostic_logger_self [of self]
    by (simp only: i log_signal_intent_run [OF x i(2) b] log_signal_self)
qed

lemma wrapped_fst:
  assumes "original self ms ps clk lg = (Inr intent, self1, lg1)"
  shows "fst (wrapped original self ms ps clk lg) =
           (case fst (log_signal_intent self1 intent ms lg1) of
              Inl e \<Rightarrow> Inl e | Inr u \<Rightarrow> Inr intent)"
  by (simp add: wrapped_def assms split: prod.splits sum.splits)

lemma dec_small: "n < 10 \<Longrightarrow> dec n = [digit_char n]"
  by (simp add: dec.simps)

lemma dec_big: "10 \<le> n \<Longrightarrow> dec n = dec (n div 10) @ [digit_char (n mod 10)]"
  by (subst dec.simps) simp

lemma isoformat_example: "isoformat ex_time = ''2024-01-15T12:30:00+00:00''"
  by (simp add: isoformat_def format_time_def format_offset_def seconds_part_def zpad_def
      dec_small dec_big digit_char_def)




lemma wrapped_example:
  "wrapped ex_on_bar ex_hypothesis (ex_market 30) () () ex_logging =
     (Inr (Some \<lparr>type = BUY, size' = 1\<rparr>),
      ex_hypothesis\<lparr>diagnostic_logger := Some ''hypotheses.base.Demo''\<rparr>,
      ex_logging\<lparr>info_calls := [ex_log_call ''Demo'' ''demo'' ''LONG'']\<rparr>)"
  unfolding wrapped_def log_signal_intent_def log_signal_def is_hold_def logger_info_def
    get_diagnostic_logger_def getattr_hypothesis_id_def direction_of_def Let_def ex_on_bar_def
  by (simp add: isoformat_example [simplified])


section \<open>Properties of \<open>CompetitionHailMary.on_bar\<close>\<close>

lemma hold_init: "TradeIntent_init HOLD None = Inr \<lparr>type = HOLD, size' = 1\<rparr>"
  by (simp add: TradeIntent_init_def)

lemma class_on_bar: "on_bar_attr (CompetitionHailMary_class ops) = wrapped (on_bar_original ops)"
  by (simp add: CompetitionHailMary_class_def init_subclass_def)

lemma default_fields:
  "lookback (CompetitionHailMary_default ops) = 14"
  "slow_period (CompetitionHailMary_default ops) = 13"
  "fast_period (CompetitionHailMary_default ops) = 5"
  "rsi_period (CompetitionHailMary_default ops) = 7"
  "explain_decisions (CompetitionHailMary_default ops) = False"
  by (simp_all add: CompetitionHailMary_default_def CompetitionHailMary_init_def)

text \<open>
  C6: when \<open>bar_count()\<close> is below \<open>max(lookback, slow_period) + 10\<close>, or \<open>recent_bars\<close>
  returns \<open>None\<close> or fewer bars than that, \<open>on_bar\<close> returns a hold (of the default size)
  and raises nothing, for every configuration and every arithmetic; so does the method
  the class ends up with, the wrapped one, which leaves the instance and the logging
  state untouched.
\<close>

theorem on_bar_insufficient_hold:
  assumes "bar_count ms < max (lookback self) (slow_period self) + 10 \<or>
           recent_bars ms (max (lookback self) (slow_period self) + 10) = None \<or>
           (\<exists>bars. recent_bars ms (max (lookback self) (slow_period self) + 10) = Some bars \<and>
                   int (length bars) < max (lookback self) (slow_period self) + 10)"
  shows "on_bar ops self ms ps clk = Inr (\<lparr>type = HOLD, size' = 1\<rparr>, None) \<and>
         on_bar_attr (CompetitionHailMary_class ops) self ms ps clk lg =
           (Inr (Some \<lparr>type = HOLD, size' = 1\<rparr>), self, lg)"
proof -
  have 1: "on_bar ops self ms ps clk = Inr (\<lparr>type = HOLD, size' = 1\<rparr>, None)"
    using assms by (auto simp: on_bar_def Let_def hold_init)
  have 2: "log_signal_intent self (Some \<lparr>type = HOLD, size' = 1\<rparr>) ms lg = (Inr (), self, lg)"
    by (rule log_signal_intent_skip) (simp add: is_hold_def)
  show ?thesis
    by (simp add: 1 2 class_on_bar wrapped_def on_bar_original_def)
qed

theorem on_bar_insufficient_hold_witness:
  "bar_count (ex_market 10) <
     max (lookback (CompetitionHailMary_default real_ops))
         (slow_period (CompetitionHailMary_default real_ops)) + 10 \<and>
   on_bar real_ops (CompetitionHailMary_default real_ops) (ex_market 10) () () =
     Inr (\<lparr>type = HOLD, size' = 1\<rparr>, None) \<and>
   recent_bars ((ex_market 10)\<lparr>bar_count := 30\<rparr>) 24 = Some (replicate 10 ex_bar) \<and>
   on_bar real_ops (CompetitionHailMary_default real_ops) ((ex_market 10)\<lparr>bar_count := 30\<rparr>) () () =
     Inr (\<lparr>type = HOLD, size' = 1\<rparr>, None)"
proof -
  let ?self = "CompetitionHailMary_default real_ops"
  have 1: "bar_count (ex_market 10) < max (lookback ?self) (slow_period ?self) + 10"
    by (simp add: default_fields)
  have 2: "\<exists>bars. recent_bars ((ex_market 10)\<lparr>bar_count := 30\<rparr>)
                    (max (lookback ?self) (slow_period ?self) + 10) = Some bars \<and>
                  int (length bars) < max (lookback ?self) (slow_period ?self) + 10"
    by (simp add: default_fields)
  from on_bar_insufficient_hold [of "ex_market 10" ?self real_ops "()" "()"] 1
  have a: "on_bar real_ops ?self (ex_market 10) () () = Inr (\<lparr>type = HOLD, size' = 1\<rparr>, None)"
    by blast
  from on_bar_insufficient_hold [of "(ex_market 10)\<lparr>bar_count := 30\<rparr>" ?self real_ops "()" "()"] 2
  have b: "on_bar real_ops ?self ((ex_market 10)\<lparr>bar_count := 30\<rparr>) () () =
             Inr (\<lparr>type = HOLD, size' = 1\<rparr>, None)"
    by blast
  from 1 a b show ?thesis by simp
qed

lemma py_index_back:
  "0 < k \<Longrightarrow> k \<le> length xs \<Longrightarrow> py_index xs (- int k) = Inr (xs ! (length xs - k))"
  by (auto simp: py_index_def nat_diff_distrib' of_nat_diff)


lemma length_ema_loop: "length (ema_loop ops alpha prev xs) = length xs"
  by (induction xs arbitrary: prev) (auto simp: Let_def)







lemma calculate_rsi_Inl:
  assumes "closes \<noteq> []" and "rsi_period self < 1 - int (length closes)"
  shows "calculate_rsi ops self closes = Inl IndexError"
proof -
  let ?zero = "float_of_int ops 0"
  let ?deltas = "np_diff ops closes"
  let ?gains = "map (\<lambda>d. if fgt ops d ?zero then d else ?zero) ?deltas"
  let ?p = "rsi_period self"
  have lg: "int (length ?deltas) = int (length closes) - 1"
    using assms(1) by (cases closes) (simp_all add: np_diff_def)
  have g: "\<not> int (length ?deltas) < ?p" using assms(2) lg by simp
  have u: "[?p..int (length ?deltas) - 1] = ?p # [?p + 1..int (length ?deltas) - 1]"
    using assms lg by (intro upto_rec1) simp
  have i: "py_index ?gains ?p = Inl IndexError"
    using assms(2) lg by (simp add: py_index_def)
  show ?thesis
    using g by (simp add: calculate_rsi_def Let_def u i del: upto.simps)
qed

lemma ema_cases:
  "ema ops data period = Inl ZeroDivisionError \<and> period = - 1 \<or>
   ema ops data period = Inl IndexError \<and> period \<noteq> - 1 \<and> data = [] \<or>
   (\<exists>e. ema ops data period = Inr e \<and> length e = length data \<and> period \<noteq> - 1 \<and> data \<noteq> [])"
  by (cases data) (auto simp: ema_def Let_def length_ema_loop)

lemma py_index_short: "length xs < 2 \<Longrightarrow> py_index xs (- 2) = Inl IndexError"
  by (auto simp: py_index_def)

text \<open>
  The four conditions on the configuration and on the bars are needed: with sufficient
  history, \<open>on_bar\<close> raises when one of them fails.
\<close>

lemma on_bar_sufficient_raises:
  assumes cnt: "max (lookback self) (slow_period self) + 10 \<le> bar_count ms"
    and bars: "recent_bars ms (max (lookback self) (slow_period self) + 10) = Some bars"
    and len: "max (lookback self) (slow_period self) + 10 \<le> int (length bars)"
    and bad: "fast_period self = - 1 \<or> slow_period self = - 1 \<or> length bars < 2 \<or>
              rsi_period self < 1 - int (length bars)"
  shows "\<exists>e. on_bar ops self ms ps clk = Inl e"
proof -
  let ?closes = "map close bars"
  note unfold = on_bar_def Let_def bars
  from cnt len have pre: "\<not> bar_count ms < max (lookback self) (slow_period self) + 10"
    "\<not> int (length bars) < max (lookback self) (slow_period self) + 10"
    by simp_all
  consider (f) e where "ema ops ?closes (fast_period self) = Inl e"
    | (s) fe e where "ema ops ?closes (fast_period self) = Inr fe"
        "ema ops ?closes (slow_period self) = Inl e"
    | (ok) fe se where "ema ops ?closes (fast_period self) = Inr fe" "length fe = length bars"
        "ema ops ?closes (slow_period self) = Inr se" "length se = length bars"
        "fast_period self \<noteq> - 1" "slow_period self \<noteq> - 1" "bars \<noteq> []"
    using ema_cases [of ops ?closes "fast_period self"] ema_cases [of ops ?closes "slow_period self"]
    by auto
  then show ?thesis
  proof cases
    case f
    then show ?thesis by (simp add: unfold pre)
  next
    case s
    then show ?thesis by (simp add: unfold pre)
  next
    case ok
    show ?thesis
    proof (cases "length bars < 2")
      case True
      then have "py_index fe (- 2) = Inl IndexError"
        using ok(2) by (simp add: py_index_short)
      then show ?thesis by (simp add: unfold pre ok)
    next
      case False
      then have two: "2 \<le> length bars" by simp
      have ix: "py_index xs (- 2) = Inr (xs ! (length xs - 2))"
               "py_index xs (- 1) = Inr (xs ! (length xs - 1))"
        if "length xs = length bars" for xs :: "'x list"
        using py_index_back [of 2 xs] py_index_back [of 1 xs] two that by simp_all
      from False bad ok have "rsi_period self < 1 - int (length ?closes)" by simp
      with ok(7) have "calculate_rsi ops self ?closes = Inl IndexError"
        by (intro calculate_rsi_Inl) simp_all
      then show ?thesis by (simp add: unfold pre ok ix)
    qed
  qed
qed

text \<open>What the decision is on that market: all prices equal, the averages do not cross.\<close>

lemma upto_7_22: "[7..22::int] = [7,8,9,10,11,12,13,14,15,16,17,18,19,20,21,22]"
  by (simp add: upto.simps)

lemma replicate_24: "replicate 24 x = [x,x,x,x,x,x,x,x,x,x,x,x,x,x,x,x,x,x,x,x,x,x,x,x]"
  by (simp add: numeral_eq_Suc)

lemma on_bar_example:
  "on_bar real_ops ((CompetitionHailMary_default real_ops)\<lparr>explain_decisions := b\<rparr>)
     (ex_market 30) () () =
     Inr (\<lparr>type = SELL, size' = 1\<rparr>,
          Some \<lparr>dbg_symbol = ''EURUSD'', dbg_signal = SELL, dbg_rsi = 100,
                dbg_exp = False, dbg_cross_up = False, dbg_cross_dn = False,
                dbg_atr = 0, dbg_price = 1, dbg_fast_ema = 1, dbg_slow_ema = 1\<rparr>)"
  by (simp add: on_bar_def CompetitionHailMary_default_def CompetitionHailMary_init_def
      replicate_24 ema_def real_ops_def py_index_def np_roll1_def slice_from_def slice_to_def
      calculate_rsi_def np_diff_def upto_7_22 TradeIntent_init_def Let_def)

text \<open>
  \<open>on_bar\<close> reads seven attributes of the configuration and nothing else of the instance;
  the logger the hook stores on the instance is not among them.
\<close>

lemma calculate_rsi_config:
  "rsi_period a = rsi_period b \<Longrightarrow> calculate_rsi ops a closes = calculate_rsi ops b closes"
  by (simp add: calculate_rsi_def Let_def cong: if_cong sum.case_cong)

lemma on_bar_config:
  assumes "lookback a = lookback b" "slow_period a = slow_period b"
    "fast_period a = fast_period b" "atr_mult a = atr_mult b" "rsi_period a = rsi_period b"
    "rsi_oversold a = rsi_oversold b" "rsi_overbought a = rsi_overbought b"
  shows "on_bar ops a ms ps clk = on_bar ops b ms ps clk"
  by (simp add: on_bar_def assms calculate_rsi_config [OF assms(5)] Let_def
      cong: if_cong sum.case_cong option.case_cong)

lemma on_bar_logger:
  "on_bar ops (self\<lparr>diagnostic_logger := x\<rparr>) ms ps clk = on_bar ops self ms ps clk"
  by (rule on_bar_config) simp_all

lemma wrapped_original_self:
  "fst (snd (wrapped (on_bar_original ops) self ms ps clk lg)) = self \<or>
   (\<exists>x. fst (snd (wrapped (on_bar_original ops) self ms ps clk lg)) =
          self\<lparr>diagnostic_logger := x\<rparr>)"
proof (cases "on_bar ops self ms ps clk")
  case (Inl e)
  then show ?thesis by (simp add: wrapped_def on_bar_original_def)
next
  case (Inr r)
  let ?h = "log_signal_intent self (Some (fst r)) ms lg"
  have "fst (snd (wrapped (on_bar_original ops) self ms ps clk lg)) = fst (snd ?h)"
    by (simp add: wrapped_def on_bar_original_def Inr split: prod.splits sum.splits)
  with log_signal_intent_self [of self "Some (fst r)" ms lg] show ?thesis by simp
qed

lemma wrapped_original_Inr:
  assumes "fst (wrapped (on_bar_original ops) self ms ps clk lg) = Inr d"
  shows "\<exists>ti. d = Some ti \<and> map_sum id fst (on_bar ops self ms ps clk) = Inr ti"
proof (cases "on_bar ops self ms ps clk")
  case (Inl e)
  with assms show ?thesis by (simp add: wrapped_def on_bar_original_def)
next
  case (Inr r)
  have o: "on_bar_original ops self ms ps clk lg = (Inr (Some (fst r)), self, lg)"
    by (simp add: on_bar_original_def Inr)
  from assms show ?thesis
    by (auto simp: wrapped_fst [where original = "on_bar_original ops", OF o] Inr split: sum.splits)
qed

text \<open>
  C9: two calls of \<open>on_bar\<close> on one instance, the second on the instance as the first
  left it, with the same market state, position and clock: the decision function gives
  the same result (decision or exception) on both, and when both calls return, they
  return the same decision, kind and size, whatever the logging state of either call.
\<close>

theorem on_bar_repeatable:
  assumes "on_bar_attr (CompetitionHailMary_class ops) self ms ps clk lg = (r1, self1, lg1)"
    and "on_bar_attr (CompetitionHailMary_class ops) self1 ms ps clk lg' = (r2, self2, lg2)"
  shows "on_bar ops self1 ms ps clk = on_bar ops self ms ps clk \<and>
         (\<forall>d1 d2. r1 = Inr d1 \<and> r2 = Inr d2 \<longrightarrow>
            d1 = d2 \<and> (\<exists>ti. d1 = Some ti \<and> map_sum id fst (on_bar ops self ms ps clk) = Inr ti))"
proof -
  from wrapped_original_self [of ops self ms ps clk lg] assms(1)
  have "self1 = self \<or> (\<exists>x. self1 = self\<lparr>diagnostic_logger := x\<rparr>)"
    by (simp add: class_on_bar)
  then have eq: "on_bar ops self1 ms ps clk = on_bar ops self ms ps clk"
    by (auto simp: on_bar_logger)
  have d: "d1 = d2 \<and> (\<exists>ti. d1 = Some ti \<and> map_sum id fst (on_bar ops self ms ps clk) = Inr ti)"
    if "r1 = Inr d1" "r2 = Inr d2" for d1 d2
  proof -
    from wrapped_original_Inr [of ops self ms ps clk lg d1] assms(1) that(1)
    obtain t1 where 1: "d1 = Some t1" "map_sum id fst (on_bar ops self ms ps clk) = Inr t1"
      by (auto simp: class_on_bar)
    from wrapped_original_Inr [of ops self1 ms ps clk lg' d2] assms(2) that(2)
    obtain t2 where 2: "d2 = Some t2" "map_sum id fst (on_bar ops self1 ms ps clk) = Inr t2"
      by (auto simp: class_on_bar)
    from 1 2 eq show ?thesis by simp
  qed
  from eq d show ?thesis by blast
qed

lemma on_bar_attr_example1:
  "on_bar_attr (CompetitionHailMary_class real_ops)
     ((CompetitionHailMary_default real_ops)\<lparr>explain_decisions := True\<rparr>)
     (ex_market 30) () () ex_logging =
   (Inr (Some \<lparr>type = SELL, size' = 1\<rparr>),
    (CompetitionHailMary_default real_ops)
      \<lparr>explain_decisions := True,
       diagnostic_logger := Some ''hypotheses.base.CompetitionHailMary''\<rparr>,
    ex_logging\<lparr>info_calls :=
      [ex_log_call ''CompetitionHailMary'' ''competition_hail_mary'' ''SHORT'']\<rparr>)"
  unfolding class_on_bar wrapped_def on_bar_original_def on_bar_example
  by (simp add: log_signal_intent_def log_signal_def is_hold_def logger_info_def
      get_diagnostic_logger_def getattr_hypothesis_id_def direction_of_def Let_def
      CompetitionHailMary_default_def CompetitionHailMary_init_def isoformat_example [simplified])

lemma on_bar_attr_example2:
  "on_bar_attr (CompetitionHailMary_class real_ops)
     ((CompetitionHailMary_default real_ops)
        \<lparr>explain_decisions := True,
         diagnostic_logger := Some ''hypotheses.base.CompetitionHailMary''\<rparr>)
     (ex_market 30) () () ex_logging =
   (Inr (Some \<lparr>type = SELL, size' = 1\<rparr>),
    (CompetitionHailMary_default real_ops)
      \<lparr>explain_decisions := True,
       diagnostic_logger := Some ''hypotheses.base.CompetitionHailMary''\<rparr>,
    ex_logging\<lparr>info_calls :=
      [ex_log_call ''CompetitionHailMary'' ''competition_hail_mary'' ''SHORT'']\<rparr>)"
  unfolding class_on_bar wrapped_def on_bar_original_def on_bar_logger on_bar_example
  by (simp add: log_signal_intent_def log_signal_def is_hold_def logger_info_def
      get_diagnostic_logger_def getattr_hypothesis_id_def direction_of_def Let_def
      CompetitionHailMary_default_def CompetitionHailMary_init_def isoformat_example [simplified])

theorem on_bar_repeatable_witness:
  "fst (on_bar_attr (CompetitionHailMary_class real_ops)
     ((CompetitionHailMary_default real_ops)\<lparr>explain_decisions := True\<rparr>)
     (ex_market 30) () () ex_logging) = Inr (Some \<lparr>type = SELL, size' = 1\<rparr>) \<and>
   fst (on_bar_attr (CompetitionHailMary_class real_ops)
     ((CompetitionHailMary_default real_ops)
        \<lparr>explain_decisions := True,
         diagnostic_logger := Some ''hypotheses.base.CompetitionHailMary''\<rparr>)
     (ex_market 30) () () ex_logging) = Inr (Some \<lparr>type = SELL, size' = 1\<rparr>) \<and>
   on_bar real_ops
     ((CompetitionHailMary_default real_ops)
        \<lparr>explain_decisions := True,
         diagnostic_logger := Some ''hypotheses.base.CompetitionHailMary''\<rparr>)
     (ex_market 30) () () =
   on_bar real_ops ((CompetitionHailMary_default real_ops)\<lparr>explain_decisions := True\<rparr>)
     (ex_market 30) () ()"
proof -
  from on_bar_repeatable [OF on_bar_attr_example1 on_bar_attr_example2]
  have "on_bar real_ops
     ((CompetitionHailMary_default real_ops)
        \<lparr>explain_decisions := True,
         diagnostic_logger := Some ''hypotheses.base.CompetitionHailMary''\<rparr>)
     (ex_market 30) () () =
   on_bar real_ops ((CompetitionHailMary_default real_ops)\<lparr>explain_decisions := True\<rparr>)
     (ex_market 30) () ()"
    by (rule conjunct1)
  with on_bar_attr_example1 on_bar_attr_example2 show ?thesis by simp
qed

section \<open>Properties of the serializer\<close>

subsection \<open>Decimal numerals\<close>











subsection \<open>\<open>isoformat\<close> determines the \<open>datetime\<close>\<close>








subsection \<open>The characters of the text\<close>














subsection \<open>The encoding of an intent\<close>
















end
